theory Spec2Isabelle
  imports
    Complex_Main
    "HOL-Library.Sublist"
    "HOL-Library.AList"
    "HOL-Library.Multiset"
    "HOL-Library.Char_ord"
    "HOL-Library.List_Lexorder"
    "HOL-Library.Product_Lexorder"
begin

section \<open>MeloMuse: data model\<close>

text \<open>
  The development follows \<^verbatim>\<open>src/models/transition_model.py\<close> and
  \<^verbatim>\<open>src/data/spotify_collector.py\<close>.

  Python integers are \<^typ>\<open>int\<close>. Python floats are idealised: a finite float is an
  exact rational, and the two special values the code can meet (\<^verbatim>\<open>float('inf')\<close>
  and the \<^verbatim>\<open>nan\<close> that \<^verbatim>\<open>np.mean\<close> gives on an empty list) are
  constructors of their own. Rounding is not modelled.

  Exceptions are values of \<open>pyerr\<close>; a function that can raise returns \<open>pyerr + 'a\<close>
  with \<open>Inl\<close> the exception.
\<close>

datatype pyerr =
    ValueError string  \<comment> \<open>with its message\<close>
  | KeyError string  \<comment> \<open>with the missing key\<close>
  | IndexError
  | TypeError string  \<comment> \<open>with its message\<close>
  | ZeroDivisionError
  | NetworkXNoPath string  \<comment> \<open>with its message\<close>
  | ApiError string  \<comment> \<open>an exception of the API client, with its message\<close>

datatype pyfloat = Fin rat | PInf | NaN

text \<open>
  The record that \<^verbatim>\<open>get_track_info\<close> builds (its eighteen keys, in the source's
  order), and a row of the dataset: the same keys with \<^verbatim>\<open>mood\<close>, and with the
  \<^verbatim>\<open>cluster\<close> column that \<^verbatim>\<open>train\<close> assigns.
\<close>

record track_info =
  track_id :: string
  name :: string
  artist :: string
  popularity :: int
  duration_ms :: int
  album :: string
  release_date :: string
  explicit :: bool
  track_number :: int
  disc_number :: int
  available_markets :: int
  is_local :: bool
  album_type :: string
  album_release_date :: string
  album_total_tracks :: int
  artist_popularity :: int
  artist_genres :: "string list"
  artist_followers :: int

record song = track_info +
  mood :: string
  cluster :: nat

section \<open>Transition weights\<close>

subsection \<open>\<^verbatim>\<open>_calculate_feature_similarity\<close>\<close>

text \<open>
  Python's \<^verbatim>\<open>/\<close> on integers: true division, \<^verbatim>\<open>ZeroDivisionError\<close> on a zero
  divisor.
\<close>

definition truediv :: "int \<Rightarrow> int \<Rightarrow> pyerr + rat" where
  "truediv a b = (if b = 0 then Inl ZeroDivisionError else Inr (of_int a / of_int b))"

text \<open>\<^verbatim>\<open>np.mean\<close> of a list of finite floats: \<^verbatim>\<open>nan\<close> when the list is empty.\<close>

definition np_mean :: "rat list \<Rightarrow> pyfloat" where
  "np_mean xs = (if xs = [] then NaN else Fin (sum_list xs / of_nat (length xs)))"

text \<open>
  One round of the loop over the numeric features: the term appended to
  \<^verbatim>\<open>similarities\<close>, or nothing when \<^verbatim>\<open>max_val > 0\<close> fails.
\<close>

definition numeric_similarity :: "int \<Rightarrow> int \<Rightarrow> pyerr + rat list" where
  "numeric_similarity v1 v2 =
     (let max_val = max v1 v2 in
      if max_val > 0 then
        (case truediv \<bar>v1 - v2\<bar> max_val of
           Inl e \<Rightarrow> Inl e
         | Inr q \<Rightarrow> Inr [1 - q])
      else Inr [])"

definition features :: "(song \<Rightarrow> int) list" where
  "features = [popularity, duration_ms, artist_popularity, artist_followers]"

text \<open>The loop \<^verbatim>\<open>for feature in features\<close>, stopping at the first exception.\<close>

fun numeric_similarities :: "(song \<Rightarrow> int) list \<Rightarrow> song \<Rightarrow> song \<Rightarrow> rat list \<Rightarrow> pyerr + rat list" where
  "numeric_similarities [] song1 song2 similarities = Inr similarities"
| "numeric_similarities (feature # rest) song1 song2 similarities =
     (case numeric_similarity (feature song1) (feature song2) of
        Inl e \<Rightarrow> Inl e
      | Inr t \<Rightarrow> numeric_similarities rest song1 song2 (similarities @ t))"

text \<open>The list \<^verbatim>\<open>similarities\<close> as it stands when \<^verbatim>\<open>np.mean\<close> is called.\<close>

definition similarity_terms :: "song \<Rightarrow> song \<Rightarrow> pyerr + rat list" where
  "similarity_terms song1 song2 =
     (case numeric_similarities features song1 song2 [] of
        Inl e \<Rightarrow> Inl e
      | Inr similarities \<Rightarrow>
          Inr (similarities
               @ [if explicit song1 = explicit song2 then 1 else 0]
               @ [if album_type song1 = album_type song2 then 1 else 0]))"

definition calculate_feature_similarity :: "song \<Rightarrow> song \<Rightarrow> pyerr + pyfloat" where
  "calculate_feature_similarity song1 song2 =
     (case similarity_terms song1 song2 of
        Inl e \<Rightarrow> Inl e
      | Inr similarities \<Rightarrow> Inr (np_mean similarities))"

subsection \<open>\<^verbatim>\<open>_calculate_transition_weight\<close>\<close>

text \<open>The table \<^verbatim>\<open>mood_weights\<close>, as an association list in the source's order.\<close>

definition mood_weights :: "((string \<times> string) \<times> rat) list" where
  "mood_weights =
     [((''sad'', ''happy''), 8/10),
      ((''happy'', ''sad''), 6/10),
      ((''calm'', ''energetic''), 7/10),
      ((''energetic'', ''calm''), 7/10),
      ((''angry'', ''calm''), 8/10),
      ((''calm'', ''angry''), 5/10),
      ((''romantic'', ''happy''), 7/10),
      ((''happy'', ''romantic''), 7/10),
      ((''melancholic'', ''happy''), 6/10),
      ((''happy'', ''melancholic''), 5/10)]"

text \<open>\<^verbatim>\<open>mood_weights.get(mood_pair, 0.3)\<close>\<close>

definition base_weight :: "string \<times> string \<Rightarrow> rat" where
  "base_weight mood_pair = (case map_of mood_weights mood_pair of None \<Rightarrow> 3/10 | Some w \<Rightarrow> w)"

text \<open>A finite float times a float; the factor is an entry of the table, so positive.\<close>

fun fl_scale :: "rat \<Rightarrow> pyfloat \<Rightarrow> pyfloat" where
  "fl_scale c (Fin x) = Fin (c * x)"
| "fl_scale c PInf = (if c > 0 then PInf else NaN)"
| "fl_scale c NaN = NaN"

definition calculate_transition_weight :: "song \<Rightarrow> song \<Rightarrow> pyerr + pyfloat" where
  "calculate_transition_weight song1 song2 =
     (let mood_pair = (mood song1, mood song2);
          bw = base_weight mood_pair
      in case calculate_feature_similarity song1 song2 of
           Inl e \<Rightarrow> Inl e
         | Inr feature_similarity \<Rightarrow> Inr (fl_scale bw feature_similarity))"


section \<open>The transition graph\<close>

text \<open>
  A \<^verbatim>\<open>networkx.DiGraph\<close> as the code uses it: the nodes with their attributes in
  insertion order, and the edges with their \<^verbatim>\<open>weight\<close> attribute in insertion
  order. Adding a node or an edge that is already there overwrites its attributes in
  place, which is what \<^const>\<open>AList.update\<close> does.
\<close>

record node_attrs =
  n_mood :: string
  n_cluster :: nat
  n_songs :: "song list"

record graph =
  nodes :: "(string \<times> node_attrs) list"
  edges :: "((string \<times> string) \<times> pyfloat) list"

text \<open>\<^verbatim>\<open>TransitionModel.__init__\<close>: \<^verbatim>\<open>self.graph = nx.DiGraph()\<close>\<close>

definition TransitionModel_init :: graph where
  "TransitionModel_init = \<lparr>nodes = [], edges = []\<rparr>"

definition add_node :: "string \<Rightarrow> node_attrs \<Rightarrow> graph \<Rightarrow> graph" where
  "add_node node_id attrs g = g\<lparr>nodes := AList.update node_id attrs (nodes g)\<rparr>"

definition add_edge :: "string \<Rightarrow> string \<Rightarrow> pyfloat \<Rightarrow> graph \<Rightarrow> graph" where
  "add_edge node1 node2 weight g = g\<lparr>edges := AList.update (node1, node2) weight (edges g)\<rparr>"

definition node_ids :: "graph \<Rightarrow> string list" where
  "node_ids g = map fst (nodes g)"

subsection \<open>Grouping and node creation\<close>

text \<open>
  \<^verbatim>\<open>dataset.groupby(['mood', 'cluster'])\<close>: one group per key that occurs, the keys
  in sorted order, each group holding its rows in the dataset's order.
\<close>

definition group_key :: "song \<Rightarrow> string \<times> nat" where
  "group_key row = (mood row, cluster row)"

definition group_keys :: "song list \<Rightarrow> (string \<times> nat) list" where
  "group_keys dataset = sort (remdups (map group_key dataset))"

definition groupby_mood_cluster :: "song list \<Rightarrow> ((string \<times> nat) \<times> song list) list" where
  "groupby_mood_cluster dataset =
     map (\<lambda>k. (k, filter (\<lambda>row. group_key row = k) dataset)) (group_keys dataset)"

text \<open>The decimal digits of a natural number, as an f-string formats it.\<close>

fun str_of_nat :: "nat \<Rightarrow> string" where
  "str_of_nat n =
     (if n < 10 then [char_of (48 + n)]
      else str_of_nat (n div 10) @ [char_of (48 + n mod 10)])"

declare str_of_nat.simps [simp del]

definition make_node_id :: "string \<Rightarrow> nat \<Rightarrow> string" where
  "make_node_id m c = m @ ''_'' @ str_of_nat c"

text \<open>The first loop of \<^verbatim>\<open>_build_transition_graph\<close>.\<close>

fun add_group_nodes :: "((string \<times> nat) \<times> song list) list \<Rightarrow> graph \<Rightarrow> graph" where
  "add_group_nodes [] g = g"
| "add_group_nodes (((m, c), songs) # rest) g =
     add_group_nodes rest
       (add_node (make_node_id m c) \<lparr>n_mood = m, n_cluster = c, n_songs = songs\<rparr> g)"

subsection \<open>Edge creation\<close>

text \<open>\<^verbatim>\<open>s.split(sep)\<close> for a one-character separator.\<close>

fun split_on :: "char \<Rightarrow> string \<Rightarrow> string list" where
  "split_on sep [] = [[]]"
| "split_on sep (x # xs) =
     (if x = sep then [] # split_on sep xs
      else (case split_on sep xs of
              [] \<Rightarrow> [[x]]
            | p # ps \<Rightarrow> (x # p) # ps))"

text \<open>The tuple assignment \<^verbatim>\<open>a, b = parts\<close>.\<close>

definition unpack2 :: "string list \<Rightarrow> pyerr + (string \<times> string)" where
  "unpack2 parts =
     (case parts of
        [a, b] \<Rightarrow> Inr (a, b)
      | [] \<Rightarrow> Inl (ValueError ''not enough values to unpack (expected 2, got 0)'')
      | [a] \<Rightarrow> Inl (ValueError ''not enough values to unpack (expected 2, got 1)'')
      | _ \<Rightarrow> Inl (ValueError ''too many values to unpack (expected 2)''))"

text \<open>\<^verbatim>\<open>self.graph.nodes[node]['songs']\<close>\<close>

definition node_songs :: "graph \<Rightarrow> string \<Rightarrow> pyerr + song list" where
  "node_songs g node =
     (case map_of (nodes g) node of
        None \<Rightarrow> Inl (KeyError node)
      | Some attrs \<Rightarrow> Inr (n_songs attrs))"

text \<open>\<^verbatim>\<open>self.graph.nodes[node]['songs'][0]\<close>\<close>

definition first_song :: "graph \<Rightarrow> string \<Rightarrow> pyerr + song" where
  "first_song g node =
     (case node_songs g node of
        Inl e \<Rightarrow> Inl e
      | Inr songs \<Rightarrow> (case songs of [] \<Rightarrow> Inl IndexError | s # _ \<Rightarrow> Inr s))"

text \<open>Comparison of floats: false whenever a \<^verbatim>\<open>nan\<close> takes part.\<close>

fun fl_less :: "pyfloat \<Rightarrow> pyfloat \<Rightarrow> bool" where
  "fl_less (Fin a) (Fin b) = (a < b)"
| "fl_less (Fin a) PInf = True"
| "fl_less _ _ = False"

text \<open>
  The loops over \<^verbatim>\<open>node2\<close> and over \<^verbatim>\<open>node1\<close>. Each returns the graph as it
  stands when the loop ends, and the exception that ended it, if one did: the edges
  added before an exception stay in \<^verbatim>\<open>self.graph\<close>.
\<close>

fun add_edges_from :: "string \<Rightarrow> string list \<Rightarrow> graph \<Rightarrow> graph \<times> pyerr option" where
  "add_edges_from node1 [] g = (g, None)"
| "add_edges_from node1 (node2 # rest) g =
     (case unpack2 (split_on CHR ''_'' node2) of
        Inl e \<Rightarrow> (g, Some e)
      | Inr _ \<Rightarrow>
     (case first_song g node1 of
        Inl e \<Rightarrow> (g, Some e)
      | Inr song1 \<Rightarrow>
     (case first_song g node2 of
        Inl e \<Rightarrow> (g, Some e)
      | Inr song2 \<Rightarrow>
     (case calculate_transition_weight song1 song2 of
        Inl e \<Rightarrow> (g, Some e)
      | Inr weight \<Rightarrow>
          add_edges_from node1 rest
            (if fl_less (Fin 0) weight then add_edge node1 node2 weight g else g)))))"

fun add_all_edges :: "string list \<Rightarrow> string list \<Rightarrow> graph \<Rightarrow> graph \<times> pyerr option" where
  "add_all_edges [] all_nodes g = (g, None)"
| "add_all_edges (node1 # rest) all_nodes g =
     (case unpack2 (split_on CHR ''_'' node1) of
        Inl e \<Rightarrow> (g, Some e)
      | Inr _ \<Rightarrow>
     (case add_edges_from node1 all_nodes g of
        (g', Some e) \<Rightarrow> (g', Some e)
      | (g', None) \<Rightarrow> add_all_edges rest all_nodes g'))"

definition build_transition_graph :: "song list \<Rightarrow> graph \<Rightarrow> graph \<times> pyerr option" where
  "build_transition_graph dataset g =
     (let g1 = add_group_nodes (groupby_mood_cluster dataset) g
      in add_all_edges (node_ids g1) (node_ids g1) g1)"

subsection \<open>\<^verbatim>\<open>train\<close>\<close>

text \<open>
  Scaling and k-means are library code: \<open>fit_predict\<close> stands for
  \<^verbatim>\<open>self.kmeans.fit_predict(self.scaler.fit_transform(features))\<close>, the labels of the
  rows or the exception it raises. \<^verbatim>\<open>dataset['cluster'] = labels\<close> needs one label
  per row.
\<close>

definition assign_clusters :: "song list \<Rightarrow> nat list \<Rightarrow> song list" where
  "assign_clusters dataset labels = map2 (\<lambda>row c. row\<lparr>cluster := c\<rparr>) dataset labels"

definition train :: "(song list \<Rightarrow> pyerr + nat list) \<Rightarrow> song list \<Rightarrow> graph \<Rightarrow> graph \<times> pyerr option" where
  "train fit_predict dataset g =
     (case fit_predict dataset of
        Inl e \<Rightarrow> (g, Some e)
      | Inr labels \<Rightarrow>
          if length labels \<noteq> length dataset
          then (g, Some (ValueError ''Length of values does not match length of index''))
          else build_transition_graph (assign_clusters dataset labels) g)"


section \<open>\<^verbatim>\<open>generate_playlist\<close>\<close>

text \<open>\<^verbatim>\<open>[n for n in self.graph.nodes() if n.startswith(emotion)]\<close>\<close>

definition nodes_starting_with :: "graph \<Rightarrow> string \<Rightarrow> string list" where
  "nodes_starting_with g emotion = filter (prefix emotion) (node_ids g)"

fun fl_add :: "pyfloat \<Rightarrow> pyfloat \<Rightarrow> pyfloat" where
  "fl_add (Fin a) (Fin b) = Fin (a + b)"
| "fl_add (Fin a) PInf = PInf"
| "fl_add PInf (Fin b) = PInf"
| "fl_add PInf PInf = PInf"
| "fl_add NaN y = NaN"
| "fl_add (Fin a) NaN = NaN"
| "fl_add PInf NaN = NaN"

text \<open>\<^verbatim>\<open>abs(x - target_duration)\<close> for a float and a finite target.\<close>

fun fl_abs_diff :: "pyfloat \<Rightarrow> int \<Rightarrow> pyfloat" where
  "fl_abs_diff (Fin a) target = Fin \<bar>a - of_int target\<bar>"
| "fl_abs_diff PInf target = PInf"
| "fl_abs_diff NaN target = NaN"

subsection \<open>\<^verbatim>\<open>_calculate_path_duration\<close>\<close>

fun path_duration_from :: "graph \<Rightarrow> string list \<Rightarrow> pyfloat \<Rightarrow> pyerr + pyfloat" where
  "path_duration_from g [] total_duration = Inr total_duration"
| "path_duration_from g (node # rest) total_duration =
     (case node_songs g node of
        Inl e \<Rightarrow> Inl e
      | Inr songs \<Rightarrow>
          if songs \<noteq> [] then
            (let avg_duration = np_mean (map (\<lambda>s. of_int (duration_ms s)) songs)
             in path_duration_from g rest (fl_add total_duration avg_duration))
          else path_duration_from g rest total_duration)"

definition calculate_path_duration :: "graph \<Rightarrow> string list \<Rightarrow> pyerr + pyfloat" where
  "calculate_path_duration g path = path_duration_from g path (Fin 0)"

subsection \<open>The search for the best path\<close>

text \<open>
  \<^verbatim>\<open>nx.shortest_path(self.graph, start, end, weight='weight')\<close> is library code: the
  parameter \<open>shortest_path\<close> stands for it, giving the path or the exception raised.
  The loops carry \<^verbatim>\<open>(best_path, best_duration)\<close>; \<^verbatim>\<open>best_path = None\<close> is
  \<^const>\<open>None\<close>. Only \<^verbatim>\<open>NetworkXNoPath\<close> is caught.
\<close>

type_synonym path_search = "graph \<Rightarrow> string \<Rightarrow> string \<Rightarrow> pyerr + string list"

type_synonym best = "string list option \<times> pyfloat"

fun try_end_nodes :: "path_search \<Rightarrow> graph \<Rightarrow> int \<Rightarrow> string \<Rightarrow> string list \<Rightarrow> best \<Rightarrow> pyerr + best" where
  "try_end_nodes shortest_path g target_duration start [] b = Inr b"
| "try_end_nodes shortest_path g target_duration start (end # rest) (best_path, best_duration) =
     (case shortest_path g start end of
        Inl (NetworkXNoPath msg) \<Rightarrow>
          try_end_nodes shortest_path g target_duration start rest (best_path, best_duration)
      | Inl e \<Rightarrow> Inl e
      | Inr path \<Rightarrow>
          (case calculate_path_duration g path of
             Inl e \<Rightarrow> Inl e
           | Inr path_duration \<Rightarrow>
               if fl_less (fl_abs_diff path_duration target_duration)
                          (fl_abs_diff best_duration target_duration)
               then try_end_nodes shortest_path g target_duration start rest (Some path, path_duration)
               else try_end_nodes shortest_path g target_duration start rest (best_path, best_duration)))"

fun try_start_nodes :: "path_search \<Rightarrow> graph \<Rightarrow> int \<Rightarrow> string list \<Rightarrow> string list \<Rightarrow> best \<Rightarrow> pyerr + best" where
  "try_start_nodes shortest_path g target_duration [] end_nodes b = Inr b"
| "try_start_nodes shortest_path g target_duration (start # rest) end_nodes b =
     (case try_end_nodes shortest_path g target_duration start end_nodes b of
        Inl e \<Rightarrow> Inl e
      | Inr b' \<Rightarrow> try_start_nodes shortest_path g target_duration rest end_nodes b')"

subsection \<open>Walking the path\<close>

text \<open>
  \<^verbatim>\<open>np.random.choice(songs)\<close>: the parameter \<open>rnd\<close> gives the generator's draws,
  \<open>rnd k\<close> for the \<open>k\<close>-th call; the song chosen is the one at that draw's index.
\<close>

definition random_choice :: "(nat \<Rightarrow> nat) \<Rightarrow> nat \<Rightarrow> song list \<Rightarrow> song" where
  "random_choice rnd k songs = songs ! (rnd k mod length songs)"

fun emit_tracks :: "(nat \<Rightarrow> nat) \<Rightarrow> graph \<Rightarrow> int \<Rightarrow> string list \<Rightarrow> nat \<Rightarrow> song list \<Rightarrow> int \<Rightarrow> pyerr + song list" where
  "emit_tracks rnd g target_duration [] k playlist current_duration = Inr playlist"
| "emit_tracks rnd g target_duration (node # rest) k playlist current_duration =
     (case node_songs g node of
        Inl e \<Rightarrow> Inl e
      | Inr songs \<Rightarrow>
          if songs \<noteq> [] then
            (let song = random_choice rnd k songs;
                 playlist' = playlist @ [song];
                 current_duration' = current_duration + duration_ms song
             in if current_duration' \<ge> target_duration then Inr playlist'
                else emit_tracks rnd g target_duration rest (Suc k) playlist' current_duration')
          else emit_tracks rnd g target_duration rest k playlist current_duration)"

text \<open>
  The method on the model's state: it returns the playlist's rows or the exception, and
  the graph as it leaves it.
\<close>

definition generate_playlist ::
  "path_search \<Rightarrow> (nat \<Rightarrow> nat) \<Rightarrow> graph \<Rightarrow> string \<Rightarrow> string \<Rightarrow> int \<Rightarrow> (pyerr + song list) \<times> graph" where
  "generate_playlist shortest_path rnd g start_emotion end_emotion duration_minutes =
     (let target_duration = duration_minutes * 60 * 1000;
          start_nodes = nodes_starting_with g start_emotion;
          end_nodes = nodes_starting_with g end_emotion
      in if start_nodes = [] \<or> end_nodes = [] then
           (Inl (ValueError (''Could not find nodes for emotions: '' @ start_emotion
                              @ '' or '' @ end_emotion)), g)
         else
           (case try_start_nodes shortest_path g target_duration start_nodes end_nodes (None, PInf) of
              Inl e \<Rightarrow> (Inl e, g)
            | Inr (best_path, best_duration) \<Rightarrow>
                (case best_path of
                   None \<Rightarrow>
                     (Inl (ValueError (''No valid path found from '' @ start_emotion
                                        @ '' to '' @ end_emotion)), g)
                 | Some [] \<Rightarrow>
                     (Inl (ValueError (''No valid path found from '' @ start_emotion
                                        @ '' to '' @ end_emotion)), g)
                 | Some path \<Rightarrow> (emit_tracks rnd g target_duration path 0 [] 0, g))))"

subsection \<open>What the library's path search is relied on for\<close>

text \<open>
  A path of the graph: a non-empty list of nodes, each joined to the next by an edge.
  \<^verbatim>\<open>nx.shortest_path\<close> between two nodes of the graph returns such a path from the
  first to the second when one exists, and raises \<^verbatim>\<open>NetworkXNoPath\<close> when none
  does. (That the path is one of least weight plays no part below.)
\<close>

fun is_path :: "graph \<Rightarrow> string list \<Rightarrow> bool" where
  "is_path g [] = False"
| "is_path g [v] = (v \<in> set (node_ids g))"
| "is_path g (u # v # rest) =
     (u \<in> set (node_ids g) \<and> (u, v) \<in> set (map fst (edges g)) \<and> is_path g (v # rest))"

definition path_between :: "graph \<Rightarrow> string \<Rightarrow> string \<Rightarrow> string list \<Rightarrow> bool" where
  "path_between g s t p = (is_path g p \<and> hd p = s \<and> last p = t)"

definition shortest_path_contract :: "path_search \<Rightarrow> graph \<Rightarrow> bool" where
  "shortest_path_contract shortest_path g =
     (\<forall>s\<in>set (node_ids g). \<forall>t\<in>set (node_ids g).
        (case shortest_path g s t of
           Inr p \<Rightarrow> path_between g s t p
         | Inl e \<Rightarrow> (\<exists>msg. e = NetworkXNoPath msg) \<and> (\<forall>p. \<not> path_between g s t p)))"


section \<open>The data collector\<close>

subsection \<open>The API's answers\<close>

text \<open>
  The JSON objects the collector reads, with the keys it reads. A key the code reads
  with \<^verbatim>\<open>.get\<close> or tests with \<^verbatim>\<open>in\<close> is optional (\<^const>\<open>None\<close> when
  absent); a call's answer is \<^const>\<open>None\<close> for Python's \<^verbatim>\<open>None\<close>.
\<close>

record artist_obj =
  a_name :: string
  a_popularity :: "int option"
  a_genres :: "string list option"
  a_followers :: "int option option"  \<comment> \<open>\<^verbatim>\<open>followers\<close>, then \<^verbatim>\<open>total\<close> in it\<close>

record album_obj =
  al_name :: string
  al_release_date :: string
  al_album_type :: string
  al_total_tracks :: int

record track_obj =
  t_id :: string
  t_name :: string
  t_artists :: "artist_obj list"
  t_popularity :: int
  t_duration_ms :: int
  t_album :: album_obj
  t_explicit :: bool
  t_track_number :: int
  t_disc_number :: int
  t_available_markets :: "string list"
  t_is_local :: bool

record playlist_obj =
  pl_id :: string
  pl_name :: string

record search_result =
  sr_items :: "playlist_obj option list option"
    \<comment> \<open>\<^verbatim>\<open>results['playlists']['items']\<close>: absent, or a list whose entries may be null\<close>

record page =
  p_items :: "string list option"  \<comment> \<open>\<^verbatim>\<open>items\<close>, each item named by its track's id\<close>
  p_next :: "string option option"  \<comment> \<open>\<^verbatim>\<open>next\<close>: absent, null, or a URL\<close>

text \<open>
  What the collector does to the world: it sleeps and it calls the API. A world is the
  list of these events so far. The client \<^verbatim>\<open>self.sp\<close> is an oracle: the answer to
  each call may depend on its arguments and on how many calls went before.
\<close>

datatype request =
    TrackReq string
  | SearchReq string int
  | PlaylistTracksReq string
  | NextReq page

datatype event = Sleep nat | Call request

type_synonym world = "event list"

fun is_call :: "event \<Rightarrow> bool" where
  "is_call (Call r) = True"
| "is_call (Sleep n) = False"

definition requests :: "world \<Rightarrow> nat" where
  "requests w = length (filter is_call w)"

record spotify =
  sp_track :: "nat \<Rightarrow> string \<Rightarrow> pyerr + track_obj option"
  sp_search :: "nat \<Rightarrow> string \<Rightarrow> int \<Rightarrow> pyerr + search_result option"
  sp_playlist_tracks :: "nat \<Rightarrow> string \<Rightarrow> pyerr + page option"
  sp_next :: "nat \<Rightarrow> page \<Rightarrow> pyerr + page option"

subsection \<open>\<^verbatim>\<open>_handle_rate_limit\<close>\<close>

text \<open>\<^verbatim>\<open>str(e)\<close>\<close>

fun str_of_err :: "pyerr \<Rightarrow> string" where
  "str_of_err (ValueError msg) = msg"
| "str_of_err (KeyError k) = [CHR 0x27] @ k @ [CHR 0x27]"
| "str_of_err IndexError = ''list index out of range''"
| "str_of_err (TypeError msg) = msg"
| "str_of_err ZeroDivisionError = ''division by zero''"
| "str_of_err (NetworkXNoPath msg) = msg"
| "str_of_err (ApiError msg) = msg"

text \<open>\<^verbatim>\<open>sub in s\<close> on strings.\<close>

fun contains :: "string \<Rightarrow> string \<Rightarrow> bool" where
  "contains sub [] = (sub = [])"
| "contains sub (c # cs) = (prefix sub (c # cs) \<or> contains sub cs)"

definition is_rate_limit :: "pyerr \<Rightarrow> bool" where
  "is_rate_limit e = (contains ''429'' (str_of_err e) \<or> contains ''403'' (str_of_err e))"

definition max_retries :: nat where
  "max_retries = 3"

definition base_delay :: nat where
  "base_delay = 2"

text \<open>
  The loop \<^verbatim>\<open>for attempt in range(max_retries)\<close>. \<open>func k\<close> is what the \<open>k\<close>-th
  call of \<^verbatim>\<open>func(*args, **kwargs)\<close> inside this loop does; \<open>req\<close> names the call
  in the world's events. The exceptions have no \<^verbatim>\<open>response\<close> attribute, so the
  handler logs nothing more. A loop that ran out would fall through to Python's implicit
  \<^verbatim>\<open>return None\<close>.
\<close>

fun attempts :: "request \<Rightarrow> (nat \<Rightarrow> pyerr + 'a option) \<Rightarrow> nat list \<Rightarrow> world \<Rightarrow> (pyerr + 'a option) \<times> world" where
  "attempts req func [] w = (Inr None, w)"
| "attempts req func (attempt # rest) w =
     (let w1 = w @ [Sleep 1, Call req]
      in case func attempt of
           Inr r \<Rightarrow> (Inr r, w1)
         | Inl e \<Rightarrow>
             if is_rate_limit e \<and> attempt < max_retries - 1 then
               (let delay = base_delay * 2 ^ attempt
                in attempts req func rest (w1 @ [Sleep delay]))
             else (Inl e, w1))"

definition handle_rate_limit :: "request \<Rightarrow> (nat \<Rightarrow> pyerr + 'a option) \<Rightarrow> world \<Rightarrow> (pyerr + 'a option) \<times> world" where
  "handle_rate_limit req func w = attempts req func [0..<max_retries] w"

subsection \<open>\<^verbatim>\<open>get_track_info\<close>\<close>




subsection \<open>\<^verbatim>\<open>search_playlists_by_mood\<close>\<close>






subsection \<open>\<^verbatim>\<open>get_playlist_tracks\<close>\<close>

text \<open>
  The \<^verbatim>\<open>while\<close> loop need not end (a server can go on answering with pages that
  add no item), so it runs on fuel: \<^const>\<open>None\<close> is a loop that has not returned.
\<close>

fun more_pages :: "nat \<Rightarrow> spotify \<Rightarrow> page \<Rightarrow> string list \<Rightarrow> world \<Rightarrow> (pyerr + string list) option \<times> world" where
  "more_pages 0 sp results tracks w = (None, w)"
| "more_pages (Suc fuel) sp results tracks w =
     (case p_next results of
        None \<Rightarrow> (Some (Inl (KeyError ''next'')), w)
      | Some nxt \<Rightarrow>
          if nxt \<noteq> None \<and> nxt \<noteq> Some [] \<and> length tracks < 50 then
            (let w1 = w @ [Sleep 1]
             in case handle_rate_limit (NextReq results)
                       (\<lambda>k. sp_next sp (requests w1 + k) results) w1 of
                  (Inl e, w2) \<Rightarrow> (Some (Inl e), w2)
                | (Inr None, w2) \<Rightarrow>
                    (Some (Inl (TypeError (''argument of type '' @ [CHR 0x27] @ ''NoneType''
                                            @ [CHR 0x27] @ '' is not iterable''))), w2)
                | (Inr (Some results'), w2) \<Rightarrow>
                    more_pages fuel sp results'
                      (case p_items results' of None \<Rightarrow> tracks | Some items \<Rightarrow> tracks @ items) w2)
          else (Some (Inr tracks), w))"

definition get_playlist_tracks_try :: "nat \<Rightarrow> spotify \<Rightarrow> string \<Rightarrow> world \<Rightarrow> (pyerr + string list) option \<times> world" where
  "get_playlist_tracks_try fuel sp playlist_id w =
     (case handle_rate_limit (PlaylistTracksReq playlist_id)
             (\<lambda>k. sp_playlist_tracks sp (requests w + k) playlist_id) w of
        (Inl e, w') \<Rightarrow> (Some (Inl e), w')
      | (Inr None, w') \<Rightarrow> (Some (Inr []), w')
      | (Inr (Some results), w') \<Rightarrow>
          (case p_items results of
             None \<Rightarrow> (Some (Inr []), w')
           | Some tracks \<Rightarrow>
               (case more_pages fuel sp results tracks w' of
                  (None, w'') \<Rightarrow> (None, w'')
                | (Some (Inl e), w'') \<Rightarrow> (Some (Inl e), w'')
                | (Some (Inr tracks'), w'') \<Rightarrow> (Some (Inr (take 50 tracks')), w''))))"

definition get_playlist_tracks :: "nat \<Rightarrow> spotify \<Rightarrow> string \<Rightarrow> world \<Rightarrow> (pyerr + string list) option \<times> world" where
  "get_playlist_tracks fuel sp playlist_id w =
     (case get_playlist_tracks_try fuel sp playlist_id w of
        (None, w') \<Rightarrow> (None, w')
      | (Some (Inl e), w') \<Rightarrow> (Some (Inr []), w')
      | (Some (Inr tracks), w') \<Rightarrow> (Some (Inr tracks), w'))"


section \<open>Example data\<close>

text \<open>Concrete songs, datasets and library behaviours on which the theorems are run.\<close>

definition example_song :: "string \<Rightarrow> string \<Rightarrow> int \<Rightarrow> int \<Rightarrow> bool \<Rightarrow> string \<Rightarrow> song" where
  "example_song tid m pop dur ex alb =
     \<lparr>track_id = tid, name = tid, artist = ''artist'', popularity = pop, duration_ms = dur,
      album = ''album'', release_date = ''2020'', explicit = ex, track_number = 1,
      disc_number = 1, available_markets = 3, is_local = False, album_type = alb,
      album_release_date = ''2020'', album_total_tracks = 10, artist_popularity = 0,
      artist_genres = [], artist_followers = 0, mood = m, cluster = 0\<rparr>"

text \<open>Three rows, two moods; a clustering that puts the second row in a cluster of its own.\<close>

definition journey_dataset :: "song list" where
  "journey_dataset =
     [example_song ''t1'' ''sad'' 50 200000 False ''album'',
      example_song ''t2'' ''sad'' 40 240000 True ''single'',
      example_song ''t3'' ''happy'' 50 180000 False ''album'']"

definition journey_labels :: "song list \<Rightarrow> pyerr + nat list" where
  "journey_labels dataset = Inr [0, 1, 0]"

definition journey_graph :: graph where
  "journey_graph = fst (train journey_labels journey_dataset TransitionModel_init)"

text \<open>A path search for graphs in which every node has an edge to every node.\<close>

definition direct_path :: path_search where
  "direct_path g s t = (if s = t then Inr [s] else Inr [s, t])"

text \<open>A dataset with a row of negative duration, all rows in cluster 0.\<close>

definition one_cluster :: "song list \<Rightarrow> pyerr + nat list" where
  "one_cluster dataset = Inr (replicate (length dataset) 0)"



definition second_draw :: "nat \<Rightarrow> nat" where
  "second_draw k = 1"

text \<open>
  Two rows whose similarity is 0, so that training joins their nodes by no edge, and a
  path search for graphs whose only edges are loops.
\<close>

definition apart_dataset :: "song list" where
  "apart_dataset =
     [example_song ''a'' ''sad'' 50 0 False ''album'',
      example_song ''b'' ''happy'' 0 200000 True ''single'']"

definition apart_graph :: graph where
  "apart_graph = fst (train one_cluster apart_dataset TransitionModel_init)"

definition stay_put :: path_search where
  "stay_put g s t = (if s = t then Inr [s] else Inl (NetworkXNoPath ''No path''))"

section \<open>Auxiliary definitions\<close>

text \<open>The terms that one numeric feature contributes, in closed form.\<close>

definition numeric_terms :: "int \<Rightarrow> int \<Rightarrow> rat list" where
  "numeric_terms v1 v2 =
     (if 0 < max v1 v2 then [1 - of_int \<bar>v1 - v2\<bar> / of_int (max v1 v2)] else [])"

definition all_terms :: "song \<Rightarrow> song \<Rightarrow> rat list" where
  "all_terms s1 s2 =
     concat (map (\<lambda>f. numeric_terms (f s1) (f s2)) features)
     @ [if explicit s1 = explicit s2 then 1 else 0, if album_type s1 = album_type s2 then 1 else 0]"

definition mean_terms :: "song \<Rightarrow> song \<Rightarrow> rat" where
  "mean_terms s1 s2 = sum_list (all_terms s1 s2) / of_nat (length (all_terms s1 s2))"

text \<open>The weight of an edge: finite, positive and at most 0.8.\<close>

definition weight_ok :: "pyfloat \<Rightarrow> bool" where
  "weight_ok w = (case w of Fin r \<Rightarrow> 0 < r \<and> r \<le> 8/10 | _ \<Rightarrow> False)"


text \<open>The node that the first loop of \<^verbatim>\<open>_build_transition_graph\<close> makes of a group.\<close>

definition group_node :: "(string \<times> nat) \<times> song list \<Rightarrow> string \<times> node_attrs" where
  "group_node grp = (make_node_id (fst (fst grp)) (snd (fst grp)),
                     \<lparr>n_mood = fst (fst grp), n_cluster = snd (fst grp), n_songs = snd grp\<rparr>)"

definition node_key :: "string \<times> node_attrs \<Rightarrow> string \<times> nat" where
  "node_key nd = (n_mood (snd nd), n_cluster (snd nd))"

text \<open>What the search loops keep true of \<^verbatim>\<open>(best_path, best_duration)\<close>.\<close>

definition best_ok :: "graph \<Rightarrow> string list \<Rightarrow> best \<Rightarrow> bool" where
  "best_ok g starts b =
     (case fst b of
        None \<Rightarrow> snd b = PInf
      | Some p \<Rightarrow> is_path g p \<and> hd p \<in> set starts \<and> (\<exists>y. snd b = Fin y))"

text \<open>Answers of the wrapped call for which \<^verbatim>\<open>_handle_rate_limit\<close> tries again.\<close>

definition retryable :: "pyerr + 'a \<Rightarrow> bool" where
  "retryable x = (case x of Inl e \<Rightarrow> is_rate_limit e | Inr r \<Rightarrow> False)"

text \<open>A server on which every page fetched by \<^verbatim>\<open>next\<close> brings at least one item.\<close>

definition pages_grow :: "spotify \<Rightarrow> bool" where
  "pages_grow sp =
     (\<forall>k results. case sp_next sp k results of
        Inr (Some results') \<Rightarrow> (case p_items results' of Some (x # xs) \<Rightarrow> True | _ \<Rightarrow> False)
      | _ \<Rightarrow> True)"


section \<open>Example servers\<close>



text \<open>A playlist without end: every page has thirty items and a next page.\<close>

definition thirty_items :: "nat \<Rightarrow> string list" where
  "thirty_items n = map (\<lambda>i. str_of_nat (n + i)) [0..<30]"

definition long_playlist_page :: "nat \<Rightarrow> page" where
  "long_playlist_page n = \<lparr>p_items = Some (thirty_items n), p_next = Some (Some ''next-page'')\<rparr>"

definition long_playlist_api :: spotify where
  "long_playlist_api =
     \<lparr>sp_track = (\<lambda>k tid. Inr None),
      sp_search = (\<lambda>k q limit. Inr None),
      sp_playlist_tracks = (\<lambda>k pid. Inr (Some (long_playlist_page 0))),
      sp_next = (\<lambda>k results. Inr (Some (long_playlist_page (30 * k))))\<rparr>"







section \<open>Feature similarity and transition weight\<close>

lemma numeric_similarity_eq: "numeric_similarity v1 v2 = Inr (numeric_terms v1 v2)"
  by (simp add: numeric_similarity_def truediv_def Let_def numeric_terms_def)

lemma numeric_terms_sym: "numeric_terms v1 v2 = numeric_terms v2 v1"
  by (simp add: numeric_terms_def max.commute abs_minus_commute)

lemma numeric_terms_le1: "t \<in> set (numeric_terms v1 v2) \<Longrightarrow> t \<le> 1"
  by (auto simp: numeric_terms_def split: if_splits)

lemma numeric_terms_ge0: "0 \<le> v1 \<Longrightarrow> 0 \<le> v2 \<Longrightarrow> t \<in> set (numeric_terms v1 v2) \<Longrightarrow> 0 \<le> t"
  by (auto simp: numeric_terms_def  split: if_splits)

lemma numeric_similarities_eq:
  "numeric_similarities fs s1 s2 acc =
     Inr (acc @ concat (map (\<lambda>f. numeric_terms (f s1) (f s2)) fs))"
  by (induction fs arbitrary: acc) (simp_all add: numeric_similarity_eq)

lemma similarity_terms_eq: "similarity_terms s1 s2 = Inr (all_terms s1 s2)"
  by (simp add: similarity_terms_def numeric_similarities_eq all_terms_def)

lemma all_terms_sym: "all_terms s1 s2 = all_terms s2 s1"
proof -
  have "(\<lambda>f. numeric_terms (f s1) (f s2)) = (\<lambda>f. numeric_terms (f s2) (f s1))"
    by (rule ext) (rule numeric_terms_sym)
  then show ?thesis
    by (simp add: all_terms_def eq_commute)
qed

lemma all_terms_length: "2 \<le> length (all_terms s1 s2)"
  by (simp add: all_terms_def)

lemma all_terms_le1: "t \<in> set (all_terms s1 s2) \<Longrightarrow> t \<le> 1"
  by (auto simp: all_terms_def dest: numeric_terms_le1)

lemma all_terms_ge0:
  assumes "\<forall>f\<in>set features. 0 \<le> f s1 \<and> 0 \<le> f s2" and "t \<in> set (all_terms s1 s2)"
  shows "0 \<le> t"
  using assms by (auto simp: all_terms_def dest: numeric_terms_ge0)

lemma sum_list_le_length: "(\<And>t. t \<in> set xs \<Longrightarrow> t \<le> (1::rat)) \<Longrightarrow> sum_list xs \<le> of_nat (length xs)"
  by (induction xs) (auto simp: add.commute add_mono)

lemma sum_list_ge0: "(\<And>t. t \<in> set xs \<Longrightarrow> 0 \<le> (t::rat)) \<Longrightarrow> 0 \<le> sum_list xs"
  by (induction xs) auto

lemma mean_le1:
  assumes "xs \<noteq> []" and "\<And>t. t \<in> set xs \<Longrightarrow> t \<le> (1::rat)"
  shows "sum_list xs / of_nat (length xs) \<le> 1"
proof -
  have "0 < (of_nat (length xs) :: rat)" using assms(1) by simp
  moreover have "sum_list xs \<le> of_nat (length xs)" using assms(2) by (rule sum_list_le_length)
  ultimately show ?thesis by (simp add: divide_le_eq)
qed

lemma mean_ge0:
  assumes "\<And>t. t \<in> set xs \<Longrightarrow> 0 \<le> (t::rat)"
  shows "0 \<le> sum_list xs / of_nat (length xs)"
  using sum_list_ge0[OF assms] by simp

lemma all_terms_nonempty: "all_terms s1 s2 \<noteq> []"
  using all_terms_length[of s1 s2] by auto

lemma feature_similarity_eq: "calculate_feature_similarity s1 s2 = Inr (Fin (mean_terms s1 s2))"
  by (simp add: calculate_feature_similarity_def similarity_terms_eq np_mean_def all_terms_nonempty mean_terms_def)

lemma mean_terms_le1: "mean_terms s1 s2 \<le> 1"
  unfolding mean_terms_def by (rule mean_le1[OF all_terms_nonempty]) (rule all_terms_le1)

lemma mean_terms_ge0: "\<forall>f\<in>set features. 0 \<le> f s1 \<and> 0 \<le> f s2 \<Longrightarrow> 0 \<le> mean_terms s1 s2"
  unfolding mean_terms_def by (rule mean_ge0) (rule all_terms_ge0)

lemma mean_terms_sym: "mean_terms s1 s2 = mean_terms s2 s1"
  by (simp add: mean_terms_def all_terms_sym[of s1 s2])

lemma transition_weight_eq:
  "calculate_transition_weight s1 s2 = Inr (Fin (base_weight (mood s1, mood s2) * mean_terms s1 s2))"
  by (simp add: calculate_transition_weight_def feature_similarity_eq Let_def)

lemma base_weight_cases: "base_weight p \<in> {3/10, 5/10, 6/10, 7/10, 8/10}"
  by (simp add: base_weight_def mood_weights_def)

lemma base_weight_bounds: "0 < base_weight p \<and> base_weight p \<le> 8/10"
  using base_weight_cases[of p] by auto

lemma positive_weight_bounds:
  assumes "calculate_transition_weight s1 s2 = Inr w" and "fl_less (Fin 0) w"
  shows "\<exists>r. w = Fin r \<and> 0 < r \<and> r \<le> 8/10"
proof -
  let ?b = "base_weight (mood s1, mood s2)" and ?m = "mean_terms s1 s2"
  from assms(1) have w: "w = Fin (?b * ?m)" by (simp add: transition_weight_eq)
  with assms(2) have pos: "0 < ?b * ?m" by simp
  have b: "0 < ?b" "?b \<le> 8/10" using base_weight_bounds by auto
  have "?b * ?m \<le> ?b * 1" using mean_terms_le1 b(1) by (intro mult_left_mono) auto
  with b(2) have "?b * ?m \<le> 8/10" by simp
  with w pos show ?thesis by blast
qed

text \<open>
  C9. The feature similarity of two songs does not depend on their order. The two
  transition weights of a pair of songs are one and the same similarity scaled by the
  two entries of the mood table, so they are equal whenever those two entries are.
\<close>

theorem feature_similarity_symmetric:
  "calculate_feature_similarity song1 song2 = calculate_feature_similarity song2 song1
   \<and> (\<exists>sim. calculate_transition_weight song1 song2
                = Inr (fl_scale (base_weight (mood song1, mood song2)) sim)
            \<and> calculate_transition_weight song2 song1
                = Inr (fl_scale (base_weight (mood song2, mood song1)) sim))
   \<and> (base_weight (mood song1, mood song2) = base_weight (mood song2, mood song1) \<longrightarrow>
        calculate_transition_weight song1 song2 = calculate_transition_weight song2 song1)"
proof (intro conjI impI)
  show "calculate_feature_similarity song1 song2 = calculate_feature_similarity song2 song1"
    by (simp add: feature_similarity_eq mean_terms_sym[of song1 song2])
next
  have "calculate_transition_weight song1 song2
          = Inr (fl_scale (base_weight (mood song1, mood song2)) (Fin (mean_terms song1 song2)))"
    by (simp add: transition_weight_eq)
  moreover have "calculate_transition_weight song2 song1
          = Inr (fl_scale (base_weight (mood song2, mood song1)) (Fin (mean_terms song1 song2)))"
    by (simp add: transition_weight_eq mean_terms_sym[of song1 song2])
  ultimately show "\<exists>sim. calculate_transition_weight song1 song2
                = Inr (fl_scale (base_weight (mood song1, mood song2)) sim)
            \<and> calculate_transition_weight song2 song1
                = Inr (fl_scale (base_weight (mood song2, mood song1)) sim)"
    by blast
next
  assume "base_weight (mood song1, mood song2) = base_weight (mood song2, mood song1)"
  then show "calculate_transition_weight song1 song2 = calculate_transition_weight song2 song1"
    by (simp add: transition_weight_eq mean_terms_sym[of song1 song2])
qed

theorem feature_similarity_symmetric_witness:
  "base_weight (''calm'', ''energetic'') = base_weight (''energetic'', ''calm'')
   \<and> calculate_transition_weight
         (example_song ''c'' ''calm'' 30 210000 False ''album'')
         (example_song ''e'' ''energetic'' 60 180000 True ''album'')
       = calculate_transition_weight
         (example_song ''e'' ''energetic'' 60 180000 True ''album'')
         (example_song ''c'' ''calm'' 30 210000 False ''album'')
   \<and> calculate_transition_weight
         (example_song ''c'' ''calm'' 30 210000 False ''album'')
         (example_song ''e'' ''energetic'' 60 180000 True ''album'')
       = Inr (Fin (33 / 80))"
proof -
  let ?c = "example_song ''c'' ''calm'' 30 210000 False ''album''"
  let ?e = "example_song ''e'' ''energetic'' 60 180000 True ''album''"
  have m: "mood ?c = ''calm''" "mood ?e = ''energetic''"
    by (simp_all add: example_song_def)
  have h: "base_weight (mood ?c, mood ?e) = base_weight (mood ?e, mood ?c)"
    unfolding m by (simp add: base_weight_def mood_weights_def)
  have v: "calculate_transition_weight ?c ?e = Inr (Fin (33 / 80))"
    by code_simp
  from feature_similarity_symmetric[of ?c ?e] h
  have "calculate_transition_weight ?c ?e = calculate_transition_weight ?e ?c"
    by blast
  with h v show ?thesis unfolding m by simp
qed

text \<open>
  C10. The similarity is defined for every pair of songs. A numeric feature raises no
  division error: its term is computed when the larger value is positive and the
  feature is skipped otherwise. The list handed to \<^verbatim>\<open>np.mean\<close> has at least the two
  terms of the explicit flag and the album type, so the mean is a number (not
  \<^verbatim>\<open>nan\<close>) and is at most 1; when the four numeric features of both songs are
  non-negative it is at least 0.
\<close>

theorem feature_similarity_total:
  "(\<exists>t. numeric_similarity v1 v2 = Inr t \<and> (t = [] \<longleftrightarrow> max v1 v2 \<le> 0))
   \<and> (\<exists>ts r. similarity_terms song1 song2 = Inr ts \<and> 2 \<le> length ts
         \<and> calculate_feature_similarity song1 song2 = Inr (Fin r) \<and> r \<le> 1
         \<and> ((\<forall>f\<in>set features. 0 \<le> f song1 \<and> 0 \<le> f song2) \<longrightarrow> 0 \<le> r))"
proof
  show "\<exists>t. numeric_similarity v1 v2 = Inr t \<and> (t = [] \<longleftrightarrow> max v1 v2 \<le> 0)"
    by (auto simp: numeric_similarity_eq numeric_terms_def)
next
  have "similarity_terms song1 song2 = Inr (all_terms song1 song2)"
    by (rule similarity_terms_eq)
  moreover have "2 \<le> length (all_terms song1 song2)"
    by (rule all_terms_length)
  moreover have "calculate_feature_similarity song1 song2 = Inr (Fin (mean_terms song1 song2))"
    by (rule feature_similarity_eq)
  moreover have "mean_terms song1 song2 \<le> 1"
    by (rule mean_terms_le1)
  moreover have "(\<forall>f\<in>set features. 0 \<le> f song1 \<and> 0 \<le> f song2) \<longrightarrow> 0 \<le> mean_terms song1 song2"
    using mean_terms_ge0 by blast
  ultimately show "\<exists>ts r. similarity_terms song1 song2 = Inr ts \<and> 2 \<le> length ts
         \<and> calculate_feature_similarity song1 song2 = Inr (Fin r) \<and> r \<le> 1
         \<and> ((\<forall>f\<in>set features. 0 \<le> f song1 \<and> 0 \<le> f song2) \<longrightarrow> 0 \<le> r)"
    by blast
qed

theorem feature_similarity_total_witness:
  "list_all (\<lambda>f. 0 \<le> f (example_song ''c'' ''calm'' 30 210000 False ''album'')
                \<and> 0 \<le> f (example_song ''e'' ''energetic'' 60 180000 True ''album'')) features
   \<and> calculate_feature_similarity
         (example_song ''c'' ''calm'' 30 210000 False ''album'')
         (example_song ''e'' ''energetic'' 60 180000 True ''album'')
       = Inr (Fin (33 / 56))
   \<and> (0::rat) \<le> 33 / 56 \<and> (33::rat) / 56 \<le> 1"
proof -
  let ?c = "example_song ''c'' ''calm'' 30 210000 False ''album''"
  let ?e = "example_song ''e'' ''energetic'' 60 180000 True ''album''"
  have h: "\<forall>f\<in>set features. 0 \<le> f ?c \<and> 0 \<le> f ?e"
    by (simp add: features_def example_song_def)
  have v: "calculate_feature_similarity ?c ?e = Inr (Fin (33 / 56))"
    by code_simp
  from feature_similarity_total[of 0 0 ?c ?e] h v
  have "(0::rat) \<le> 33 / 56 \<and> (33::rat) / 56 \<le> 1"
    by auto
  with h v show ?thesis by (simp add: list_all_iff)
qed

section \<open>Edges of a trained graph\<close>

lemma weight_ok_iff: "weight_ok w \<longleftrightarrow> (\<exists>r. w = Fin r \<and> 0 < r \<and> r \<le> 8/10)"
  by (cases w) (auto simp: weight_ok_def)

lemma set_update_subset: "set (AList.update k v al) \<subseteq> insert (k, v) (set al)"
  by (induction al) auto

lemma add_edge_weights:
  "list_all weight_ok (map snd (edges g)) \<Longrightarrow> weight_ok w \<Longrightarrow>
   list_all weight_ok (map snd (edges (add_edge u v w g)))"
  using set_update_subset[of "(u, v)" w "edges g"]
  by (auto simp: add_edge_def list_all_iff)

lemma add_edges_from_weights:
  "list_all weight_ok (map snd (edges g)) \<Longrightarrow>
   list_all weight_ok (map snd (edges (fst (add_edges_from node1 ns g))))"
proof (induction ns arbitrary: g)
  case Nil
  then show ?case by simp
next
  case (Cons node2 rest)
  show ?case
  proof (cases "unpack2 (split_on CHR ''_'' node2)")
    case (Inl e) with Cons.prems show ?thesis by simp
  next
    case u: (Inr p)
    show ?thesis
    proof (cases "first_song g node1")
      case (Inl e) with u Cons.prems show ?thesis by simp
    next
      case s1: (Inr song1)
      show ?thesis
      proof (cases "first_song g node2")
        case (Inl e) with u s1 Cons.prems show ?thesis by simp
      next
        case s2: (Inr song2)
        obtain w where w: "calculate_transition_weight song1 song2 = Inr w"
          by (simp add: transition_weight_eq)
        let ?g' = "if fl_less (Fin 0) w then add_edge node1 node2 w g else g"
        have "list_all weight_ok (map snd (edges ?g'))"
        proof (cases "fl_less (Fin 0) w")
          case True
          with positive_weight_bounds[OF w] have "weight_ok w" by (simp add: weight_ok_iff)
          with True Cons.prems show ?thesis by (simp add: add_edge_weights)
        next
          case False
          with Cons.prems show ?thesis by simp
        qed
        from Cons.IH[OF this] show ?thesis using u s1 s2 w by simp
      qed
    qed
  qed
qed

lemma add_all_edges_weights:
  "list_all weight_ok (map snd (edges g)) \<Longrightarrow>
   list_all weight_ok (map snd (edges (fst (add_all_edges ns all_nodes g))))"
proof (induction ns arbitrary: g)
  case Nil
  then show ?case by simp
next
  case (Cons node1 rest)
  show ?case
  proof (cases "unpack2 (split_on CHR ''_'' node1)")
    case (Inl e) with Cons.prems show ?thesis by simp
  next
    case u: (Inr p)
    obtain g' r where r: "add_edges_from node1 all_nodes g = (g', r)" by fastforce
    have g': "list_all weight_ok (map snd (edges g'))"
      using add_edges_from_weights[OF Cons.prems, of node1 all_nodes] r by simp
    show ?thesis
    proof (cases r)
      case None
      with u r Cons.IH[OF g'] show ?thesis by simp
    next
      case (Some e)
      with u r g' show ?thesis by simp
    qed
  qed
qed

lemma edges_add_node [simp]: "edges (add_node i a g) = edges g"
  by (simp add: add_node_def)

lemma edges_add_group_nodes [simp]: "edges (add_group_nodes gs g) = edges g"
  by (induction gs g rule: add_group_nodes.induct) simp_all

lemma build_weights:
  "list_all weight_ok (map snd (edges g)) \<Longrightarrow>
   list_all weight_ok (map snd (edges (fst (build_transition_graph ds g))))"
  by (simp add: build_transition_graph_def Let_def add_all_edges_weights)

lemma train_weights:
  "list_all weight_ok (map snd (edges g)) \<Longrightarrow>
   list_all weight_ok (map snd (edges (fst (train fp ds g))))"
  by (auto simp: train_def build_weights split: sum.splits)

lemma journey_graph_edges:
  "edges journey_graph =
     [((''happy_0'', ''happy_0''), Fin (3 / 10)),
      ((''happy_0'', ''sad_0''), Fin (117 / 200)),
      ((''happy_0'', ''sad_1''), Fin (93 / 400)),
      ((''sad_0'', ''happy_0''), Fin (39 / 50)),
      ((''sad_0'', ''sad_0''), Fin (3 / 10)),
      ((''sad_0'', ''sad_1''), Fin (49 / 400)),
      ((''sad_1'', ''happy_0''), Fin (31 / 100)),
      ((''sad_1'', ''sad_0''), Fin (49 / 400)),
      ((''sad_1'', ''sad_1''), Fin (3 / 10))]"
  by code_simp

lemma journey_train: "train journey_labels journey_dataset TransitionModel_init = (journey_graph, None)"
  by code_simp

text \<open>
  C1. Whatever the clustering returns and whether or not training ends in an exception,
  every edge of the graph that training leaves behind, starting from a new model, has a
  finite weight that is strictly positive and at most 0.8: no edge of weight 0 or less
  is added.
\<close>

theorem trained_edge_weights:
  assumes "train fit_predict dataset TransitionModel_init = (g, err)"
      and "((node1, node2), weight) \<in> set (edges g)"
    shows "\<exists>r. weight = Fin r \<and> 0 < r \<and> r \<le> 8/10"
proof -
  have "list_all weight_ok (map snd (edges (fst (train fit_predict dataset TransitionModel_init))))"
    by (rule train_weights) (simp add: TransitionModel_init_def)
  with assms have "weight_ok weight"
    by (force simp: list_all_iff)
  then show ?thesis by (simp add: weight_ok_iff)
qed

theorem trained_edge_weights_witness:
  "train journey_labels journey_dataset TransitionModel_init = (journey_graph, None)
   \<and> ((''sad_0'', ''happy_0''), Fin (39 / 50)) \<in> set (edges journey_graph)
   \<and> (0::rat) < 39 / 50 \<and> (39::rat) / 50 \<le> 8 / 10"
proof -
  have h: "((''sad_0'', ''happy_0''), Fin (39 / 50)) \<in> set (edges journey_graph)"
    unfolding journey_graph_edges by simp
  from trained_edge_weights[OF journey_train h]
  have "(0::rat) < 39 / 50 \<and> (39::rat) / 50 \<le> 8 / 10" by simp
  with journey_train h show ?thesis by blast
qed

section \<open>Nodes of a trained graph\<close>










lemma nodes_add_edge [simp]: "nodes (add_edge u v w g) = nodes g"
  by (simp add: add_edge_def)

lemma nodes_add_edges_from [simp]: "nodes (fst (add_edges_from n1 ns g)) = nodes g"
  by (induction ns arbitrary: g) (auto split: sum.splits)

lemma nodes_add_all_edges [simp]: "nodes (fst (add_all_edges ns al g)) = nodes g"
proof (induction ns arbitrary: g)
  case Nil
  then show ?case by simp
next
  case (Cons n1 rest)
  obtain g' r where r: "add_edges_from n1 al g = (g', r)" by fastforce
  then have "nodes g' = nodes g" using nodes_add_edges_from[of n1 al g] by simp
  with Cons r show ?case by (auto split: sum.splits option.splits)
qed












lemma node_key_group_node [simp]: "node_key (group_node grp) = fst grp"
  by (simp add: node_key_def group_node_def)








section \<open>Playlist generation\<close>

lemma is_path_nonempty: "is_path g p \<Longrightarrow> p \<noteq> []"
  by (cases p) auto

lemma is_path_nodes: "is_path g p \<Longrightarrow> set p \<subseteq> set (node_ids g)"
  by (induction g p rule: is_path.induct) auto

lemma node_songs_in:
  "v \<in> set (node_ids g) \<Longrightarrow> \<exists>attrs. (v, attrs) \<in> set (nodes g) \<and> node_songs g v = Inr (n_songs attrs)"
proof -
  assume "v \<in> set (node_ids g)"
  then obtain attrs where "map_of (nodes g) v = Some attrs"
    by (metis node_ids_def map_of_eq_None_iff not_None_eq set_map)
  then show ?thesis
    by (auto simp: node_songs_def dest: map_of_SomeD)
qed

lemma path_duration_from_fin:
  "set p \<subseteq> set (node_ids g) \<Longrightarrow> \<exists>y. path_duration_from g p (Fin x) = Inr (Fin y)"
proof (induction p arbitrary: x)
  case Nil
  then show ?case by simp
next
  case (Cons v rest)
  then have "v \<in> set (node_ids g)" by simp
  from node_songs_in[OF this] obtain attrs :: node_attrs where s: "node_songs g v = Inr (n_songs attrs)"
    by blast
  from Cons have "\<And>x. \<exists>y. path_duration_from g rest (Fin x) = Inr (Fin y)" by simp
  with s show ?case by (simp add: np_mean_def Let_def)
qed

lemma path_duration_fin:
  "is_path g p \<Longrightarrow> \<exists>y. calculate_path_duration g p = Inr (Fin y)"
  unfolding calculate_path_duration_def
  by (rule path_duration_from_fin) (rule is_path_nodes)

lemma try_end_nodes_ok:
  assumes c: "shortest_path_contract sp g"
      and s: "s \<in> set (node_ids g)" "s \<in> set starts"
  shows "set ts \<subseteq> set (node_ids g) \<Longrightarrow> best_ok g starts b \<Longrightarrow>
         \<exists>b'. try_end_nodes sp g target s ts b = Inr b' \<and> best_ok g starts b'
             \<and> (fst b \<noteq> None \<longrightarrow> fst b' \<noteq> None)
             \<and> ((\<exists>t\<in>set ts. \<exists>p. path_between g s t p) \<longrightarrow> fst b' \<noteq> None)
             \<and> ((\<forall>t\<in>set ts. \<forall>p. \<not> path_between g s t p) \<longrightarrow> b' = b)"
proof (induction ts arbitrary: b)
  case Nil
  then show ?case by simp
next
  case (Cons t rest)
  obtain bp bd where b: "b = (bp, bd)" by (cases b)
  from Cons.prems have t: "t \<in> set (node_ids g)" and rest: "set rest \<subseteq> set (node_ids g)" by auto
  from c s(1) t have ct: "case sp g s t of
           Inr p \<Rightarrow> path_between g s t p
         | Inl e \<Rightarrow> (\<exists>msg. e = NetworkXNoPath msg) \<and> (\<forall>p. \<not> path_between g s t p)"
    unfolding shortest_path_contract_def by blast
  show ?case
  proof (cases "sp g s t")
    case (Inl e)
    with ct obtain msg where e: "e = NetworkXNoPath msg" and none: "\<forall>p. \<not> path_between g s t p" by auto
    from Cons.IH[OF rest Cons.prems(2)] obtain b' where
      b': "try_end_nodes sp g target s rest b = Inr b'" "best_ok g starts b'"
          "fst b \<noteq> None \<longrightarrow> fst b' \<noteq> None"
          "(\<exists>t\<in>set rest. \<exists>p. path_between g s t p) \<longrightarrow> fst b' \<noteq> None"
          "(\<forall>t\<in>set rest. \<forall>p. \<not> path_between g s t p) \<longrightarrow> b' = b"
      by blast
    have "try_end_nodes sp g target s (t # rest) b = Inr b'"
      using Inl e b'(1) by (simp add: b)
    with b' none show ?thesis by auto
  next
    case (Inr p)
    with ct have pb: "path_between g s t p" by simp
    then have ip: "is_path g p" and hd: "hd p = s" by (auto simp: path_between_def)
    from path_duration_fin[OF ip] obtain y where y: "calculate_path_duration g p = Inr (Fin y)" by blast
    show ?thesis
    proof (cases "fl_less (fl_abs_diff (Fin y) target) (fl_abs_diff bd target)")
      case True
      have ok: "best_ok g starts (Some p, Fin y)"
        using ip hd s(2) by (simp add: best_ok_def)
      from Cons.IH[OF rest ok] obtain b' where
        b': "try_end_nodes sp g target s rest (Some p, Fin y) = Inr b'" "best_ok g starts b'"
            "fst b' \<noteq> None"
        by auto
      have "try_end_nodes sp g target s (t # rest) b = Inr b'"
        using Inr y True b'(1) by (simp add: b)
      with b' pb show ?thesis by auto
    next
      case False
      have bpne: "bp \<noteq> None"
      proof
        assume "bp = None"
        with Cons.prems(2) b have "bd = PInf" by (simp add: best_ok_def)
        with False show False by simp
      qed
      from Cons.IH[OF rest Cons.prems(2)] obtain b' where
        b': "try_end_nodes sp g target s rest b = Inr b'" "best_ok g starts b'"
            "fst b \<noteq> None \<longrightarrow> fst b' \<noteq> None"
        by blast
      have "try_end_nodes sp g target s (t # rest) b = Inr b'"
        using Inr y False b'(1) by (simp add: b)
      with b' bpne b pb show ?thesis by auto
    qed
  qed
qed

lemma try_start_nodes_ok:
  assumes c: "shortest_path_contract sp g"
      and ts: "set ts \<subseteq> set (node_ids g)"
  shows "set ss \<subseteq> set (node_ids g) \<Longrightarrow> set ss \<subseteq> set starts \<Longrightarrow> best_ok g starts b \<Longrightarrow>
         \<exists>b'. try_start_nodes sp g target ss ts b = Inr b' \<and> best_ok g starts b'
             \<and> (fst b \<noteq> None \<longrightarrow> fst b' \<noteq> None)
             \<and> ((\<exists>s\<in>set ss. \<exists>t\<in>set ts. \<exists>p. path_between g s t p) \<longrightarrow> fst b' \<noteq> None)
             \<and> ((\<forall>s\<in>set ss. \<forall>t\<in>set ts. \<forall>p. \<not> path_between g s t p) \<longrightarrow> b' = b)"
proof (induction ss arbitrary: b)
  case Nil
  then show ?case by simp
next
  case (Cons s rest)
  from Cons.prems have s: "s \<in> set (node_ids g)" "s \<in> set starts"
    and rest: "set rest \<subseteq> set (node_ids g)" "set rest \<subseteq> set starts" by auto
  from try_end_nodes_ok[OF c s ts Cons.prems(3), of target] obtain b1 where
    b1: "try_end_nodes sp g target s ts b = Inr b1" "best_ok g starts b1"
        "fst b \<noteq> None \<longrightarrow> fst b1 \<noteq> None"
        "(\<exists>t\<in>set ts. \<exists>p. path_between g s t p) \<longrightarrow> fst b1 \<noteq> None"
        "(\<forall>t\<in>set ts. \<forall>p. \<not> path_between g s t p) \<longrightarrow> b1 = b"
    by blast
  from Cons.IH[OF rest b1(2)] obtain b' where
    b': "try_start_nodes sp g target rest ts b1 = Inr b'" "best_ok g starts b'"
        "fst b1 \<noteq> None \<longrightarrow> fst b' \<noteq> None"
        "(\<exists>s\<in>set rest. \<exists>t\<in>set ts. \<exists>p. path_between g s t p) \<longrightarrow> fst b' \<noteq> None"
        "(\<forall>s\<in>set rest. \<forall>t\<in>set ts. \<forall>p. \<not> path_between g s t p) \<longrightarrow> b' = b1"
    by blast
  have "try_start_nodes sp g target (s # rest) ts b = Inr b'"
    using b1(1) b'(1) by simp
  with b1 b' show ?case by auto
qed

lemma nodes_starting_with_subset: "set (nodes_starting_with g e) \<subseteq> set (node_ids g)"
  by (auto simp: nodes_starting_with_def)

lemma loops_only:
  "\<forall>e\<in>set (map fst (edges g)). fst e = snd e \<Longrightarrow> is_path g p \<Longrightarrow> last p = hd p"
  by (induction g p rule: is_path.induct) auto

lemma journey_graph_eq:
  "journey_graph =
     \<lparr>nodes =
        [(''happy_0'', \<lparr>n_mood = ''happy'', n_cluster = 0,
            n_songs = [example_song ''t3'' ''happy'' 50 180000 False ''album'']\<rparr>),
         (''sad_0'', \<lparr>n_mood = ''sad'', n_cluster = 0,
            n_songs = [example_song ''t1'' ''sad'' 50 200000 False ''album'']\<rparr>),
         (''sad_1'', \<lparr>n_mood = ''sad'', n_cluster = 1,
            n_songs = [(example_song ''t2'' ''sad'' 40 240000 True ''single'')\<lparr>cluster := 1\<rparr>]\<rparr>)],
      edges =
        [((''happy_0'', ''happy_0''), Fin (3 / 10)),
         ((''happy_0'', ''sad_0''), Fin (117 / 200)),
         ((''happy_0'', ''sad_1''), Fin (93 / 400)),
         ((''sad_0'', ''happy_0''), Fin (39 / 50)),
         ((''sad_0'', ''sad_0''), Fin (3 / 10)),
         ((''sad_0'', ''sad_1''), Fin (49 / 400)),
         ((''sad_1'', ''happy_0''), Fin (31 / 100)),
         ((''sad_1'', ''sad_0''), Fin (49 / 400)),
         ((''sad_1'', ''sad_1''), Fin (3 / 10))]\<rparr>"
  by code_simp


lemma apart_graph_eq:
  "apart_graph =
     \<lparr>nodes =
        [(''happy_0'', \<lparr>n_mood = ''happy'', n_cluster = 0,
            n_songs = [example_song ''b'' ''happy'' 0 200000 True ''single'']\<rparr>),
         (''sad_0'', \<lparr>n_mood = ''sad'', n_cluster = 0,
            n_songs = [example_song ''a'' ''sad'' 50 0 False ''album'']\<rparr>)],
      edges =
        [((''happy_0'', ''happy_0''), Fin (3 / 10)),
         ((''sad_0'', ''sad_0''), Fin (3 / 10))]\<rparr>"
  by code_simp

lemma apart_no_path: "s \<noteq> t \<Longrightarrow> \<not> path_between apart_graph s t p"
proof
  assume st: "s \<noteq> t" and pb: "path_between apart_graph s t p"
  have "\<forall>e\<in>set (map fst (edges apart_graph)). fst e = snd e"
    unfolding apart_graph_eq by simp
  from loops_only[OF this] pb have "last p = hd p" unfolding path_between_def by blast
  moreover from pb have "hd p = s" and "last p = t" by (simp_all add: path_between_def)
  ultimately show False using st by simp
qed

lemma apart_contract: "shortest_path_contract stay_put apart_graph"
  unfolding shortest_path_contract_def
proof (intro ballI)
  fix s t
  assume s: "s \<in> set (node_ids apart_graph)"
  show "case stay_put apart_graph s t of
          Inl e \<Rightarrow> (\<exists>msg. e = NetworkXNoPath msg) \<and> (\<forall>p. \<not> path_between apart_graph s t p)
        | Inr p \<Rightarrow> path_between apart_graph s t p"
  proof (cases "s = t")
    case True
    with s show ?thesis by (simp add: stay_put_def path_between_def)
  next
    case False
    then show ?thesis using apart_no_path by (simp add: stay_put_def)
  qed
qed

text \<open>
  C3. When no node identifier begins with the start emotion, or none begins with the end
  emotion, \<^verbatim>\<open>generate_playlist\<close> raises the value error that names both emotions,
  whatever the path search would do: the search is not consulted. When both emotions have
  nodes and the graph has no path from any start node to any end node, and the path
  search behaves as the library's does, it raises the value error that no valid path was
  found. In both cases the graph is the one it was given.
\<close>

theorem generate_playlist_errors:
  "(nodes_starting_with g start_emotion = [] \<or> nodes_starting_with g end_emotion = [] \<longrightarrow>
      generate_playlist shortest_path rnd g start_emotion end_emotion duration_minutes
        = (Inl (ValueError (''Could not find nodes for emotions: '' @ start_emotion
                              @ '' or '' @ end_emotion)), g))
   \<and> (shortest_path_contract shortest_path g
      \<and> nodes_starting_with g start_emotion \<noteq> [] \<and> nodes_starting_with g end_emotion \<noteq> []
      \<and> (\<forall>s\<in>set (nodes_starting_with g start_emotion).
          \<forall>t\<in>set (nodes_starting_with g end_emotion). \<forall>p. \<not> path_between g s t p) \<longrightarrow>
      generate_playlist shortest_path rnd g start_emotion end_emotion duration_minutes
        = (Inl (ValueError (''No valid path found from '' @ start_emotion
                              @ '' to '' @ end_emotion)), g))"
proof (intro conjI impI)
  assume "nodes_starting_with g start_emotion = [] \<or> nodes_starting_with g end_emotion = []"
  then show "generate_playlist shortest_path rnd g start_emotion end_emotion duration_minutes
        = (Inl (ValueError (''Could not find nodes for emotions: '' @ start_emotion
                              @ '' or '' @ end_emotion)), g)"
    by (auto simp: generate_playlist_def Let_def)
next
  let ?ss = "nodes_starting_with g start_emotion" and ?ts = "nodes_starting_with g end_emotion"
  let ?target = "duration_minutes * 60 * 1000"
  assume a: "shortest_path_contract shortest_path g \<and> ?ss \<noteq> [] \<and> ?ts \<noteq> []
      \<and> (\<forall>s\<in>set ?ss. \<forall>t\<in>set ?ts. \<forall>p. \<not> path_between g s t p)"
  have ok: "best_ok g ?ss (None, PInf)" by (simp add: best_ok_def)
  from a have c: "shortest_path_contract shortest_path g" by simp
  have sub1: "set ?ss \<subseteq> set (node_ids g)" and sub2: "set ?ts \<subseteq> set (node_ids g)"
    by (rule nodes_starting_with_subset)+
  from try_start_nodes_ok[OF c sub2 sub1 order_refl ok, where target = ?target] a
  have "try_start_nodes shortest_path g ?target ?ss ?ts (None, PInf) = Inr (None, PInf)"
    by auto
  with a show "generate_playlist shortest_path rnd g start_emotion end_emotion duration_minutes
        = (Inl (ValueError (''No valid path found from '' @ start_emotion
                              @ '' to '' @ end_emotion)), g)"
    by (simp add: generate_playlist_def Let_def)
qed

theorem generate_playlist_errors_witness:
  "nodes_starting_with journey_graph ''angry'' = []
   \<and> generate_playlist direct_path second_draw journey_graph ''angry'' ''happy'' 30
       = (Inl (ValueError ''Could not find nodes for emotions: angry or happy''), journey_graph)
   \<and> shortest_path_contract stay_put apart_graph
   \<and> nodes_starting_with apart_graph ''sad'' = [''sad_0'']
   \<and> nodes_starting_with apart_graph ''happy'' = [''happy_0'']
   \<and> generate_playlist stay_put second_draw apart_graph ''sad'' ''happy'' 30
       = (Inl (ValueError ''No valid path found from sad to happy''), apart_graph)"
proof -
  have a: "nodes_starting_with journey_graph ''angry'' = []"
    unfolding journey_graph_eq by (simp add: nodes_starting_with_def node_ids_def)
  have s: "nodes_starting_with apart_graph ''sad'' = [''sad_0'']"
    unfolding apart_graph_eq by (simp add: nodes_starting_with_def node_ids_def)
  have h: "nodes_starting_with apart_graph ''happy'' = [''happy_0'']"
    unfolding apart_graph_eq by (simp add: nodes_starting_with_def node_ids_def)
  have none: "\<forall>s\<in>set (nodes_starting_with apart_graph ''sad'').
              \<forall>t\<in>set (nodes_starting_with apart_graph ''happy'').
                \<forall>p. \<not> path_between apart_graph s t p"
    unfolding s h using apart_no_path by simp
  from generate_playlist_errors[of journey_graph "''angry''" "''happy''" direct_path second_draw 30] a
  have r1: "generate_playlist direct_path second_draw journey_graph ''angry'' ''happy'' 30
       = (Inl (ValueError ''Could not find nodes for emotions: angry or happy''), journey_graph)"
    by simp
  from generate_playlist_errors[of apart_graph "''sad''" "''happy''" stay_put second_draw 30]
    apart_contract none s h
  have r2: "generate_playlist stay_put second_draw apart_graph ''sad'' ''happy'' 30
       = (Inl (ValueError ''No valid path found from sad to happy''), apart_graph)"
    by simp
  from a r1 apart_contract s h r2 show ?thesis by blast
qed







section \<open>The retry wrapper\<close>

lemma upt_max_retries: "[0..<max_retries] = [0, 1, 2]"
  by (simp add: max_retries_def upt_rec numeral_3_eq_3)

lemma handle_rate_limit_cases:
  "handle_rate_limit req func w =
     (if \<not> retryable (func 0) then (func 0, w @ [Sleep 1, Call req])
      else if \<not> retryable (func 1) then
        (func 1, w @ [Sleep 1, Call req, Sleep 2, Sleep 1, Call req])
      else (func 2, w @ [Sleep 1, Call req, Sleep 2, Sleep 1, Call req, Sleep 4, Sleep 1, Call req]))"
  unfolding handle_rate_limit_def upt_max_retries
  by (simp add: retryable_def max_retries_def base_delay_def Let_def split: sum.splits)


lemma handle_rate_limit_result:
  "fst (handle_rate_limit req func w) \<in> {func 0, func 1, func 2}"
  by (simp add: handle_rate_limit_cases)






section \<open>Track lookup\<close>





section \<open>Playlist search\<close>













section \<open>Playlist tracks\<close>

lemma more_pages_full:
  "50 \<le> length tracks \<Longrightarrow>
   more_pages fuel sp results tracks w =
     (if fuel = 0 then None
      else if p_next results = None then Some (Inl (KeyError ''next''))
      else Some (Inr tracks), w)"
  by (cases fuel) (auto split: option.splits)

lemma get_playlist_tracks_bound:
  assumes "get_playlist_tracks fuel sp playlist_id w = (Some r, w')"
  shows "\<exists>tracks. r = Inr tracks \<and> length tracks \<le> 50"
  using assms
  by (auto simp: get_playlist_tracks_def get_playlist_tracks_try_def
           split: prod.splits sum.splits option.splits)

lemma more_pages_returns:
  assumes g: "pages_grow sp"
  shows "50 - length tracks < fuel \<Longrightarrow> fst (more_pages fuel sp results tracks w) \<noteq> None"
proof (induction fuel arbitrary: results tracks w)
  case 0
  then show ?case by simp
next
  case (Suc fuel)
  show ?case
  proof (cases "p_next results")
    case None
    then show ?thesis by simp
  next
    case (Some nxt)
    show ?thesis
    proof (cases "nxt \<noteq> None \<and> nxt \<noteq> Some [] \<and> length tracks < 50")
      case False
      with Some show ?thesis by auto
    next
      case True
      let ?w1 = "w @ [Sleep 1]"
      let ?func = "\<lambda>k. sp_next sp (requests ?w1 + k) results"
      obtain r w2 where h: "handle_rate_limit (NextReq results) ?func ?w1 = (r, w2)"
        by fastforce
      show ?thesis
      proof (cases r)
        case (Inl e)
        with Some True h show ?thesis by (simp add: Let_def)
      next
        case (Inr ans)
        show ?thesis
        proof (cases ans)
          case None
          with Inr Some True h show ?thesis by (simp add: Let_def)
        next
          case ans: (Some results')
          have "r \<in> {?func 0, ?func 1, ?func 2}"
            using handle_rate_limit_result[of "NextReq results" ?func ?w1] h by simp
          then obtain k where "sp_next sp k results = Inr (Some results')"
            using Inr ans by auto
          with g obtain x xs where items: "p_items results' = Some (x # xs)"
            unfolding pages_grow_def
            by (metis (no_types, lifting) list.case_eq_if list.collapse option.case_eq_if
                option.collapse old.sum.simps(6) option.simps(5))
          let ?tracks' = "tracks @ x # xs"
          have "length tracks < length ?tracks'" by simp
          with Suc.prems True have "50 - length ?tracks' < fuel" by arith
          from Suc.IH[OF this] have "fst (more_pages fuel sp results' ?tracks' w2) \<noteq> None" .
          with Inr ans Some True h items show ?thesis by (simp add: Let_def)
        qed
      qed
    qed
  qed
qed

lemma get_playlist_tracks_returns:
  assumes "pages_grow sp" and "50 < fuel"
  shows "fst (get_playlist_tracks fuel sp playlist_id w) \<noteq> None"
proof -
  have m: "more_pages fuel sp results tracks w' \<noteq> (None, w'')" for results tracks w' w''
  proof -
    from assms(2) have "50 - length tracks < fuel" by arith
    from more_pages_returns[OF assms(1) this, of results w'] show ?thesis by auto
  qed
  show ?thesis
    by (auto simp: get_playlist_tracks_def get_playlist_tracks_try_def m
             split: prod.splits sum.splits option.splits)
qed

lemma long_run:
  "get_playlist_tracks 3 long_playlist_api ''pl'' []
    = (Some (Inr (map str_of_nat [0..<50])),
       [Sleep 1, Call (PlaylistTracksReq ''pl''), Sleep 1, Sleep 1, Call (NextReq (long_playlist_page 0))])"
  by code_simp

lemma long_playlist_grows: "pages_grow long_playlist_api"
  by (simp add: pages_grow_def long_playlist_api_def long_playlist_page_def thirty_items_def
        upt_conv_Cons)

lemma sixty_gathered:
  "more_pages 1 long_playlist_api (long_playlist_page 30) (thirty_items 0 @ thirty_items 30) []
     = (Some (Inr (thirty_items 0 @ thirty_items 30)), [])"
  by code_simp

text \<open>
  C6. Whenever \<^verbatim>\<open>get_playlist_tracks\<close> returns, it returns a list of at most 50
  items and no exception. Once 50 items are gathered the loop asks for no further page: it
  ends with the world as it was. And it does return, within 51 rounds of the loop, on
  every server whose further pages each bring at least one item.
\<close>

theorem playlist_tracks_cap:
  "(get_playlist_tracks fuel sp playlist_id w = (Some r, w') \<longrightarrow>
      (\<exists>tracks. r = Inr tracks \<and> length tracks \<le> 50))
   \<and> (50 \<le> length gathered \<longrightarrow>
        more_pages fuel sp results gathered w =
          (if fuel = 0 then None
           else if p_next results = None then Some (Inl (KeyError ''next''))
           else Some (Inr gathered), w))
   \<and> (pages_grow sp \<and> 50 < fuel \<longrightarrow> fst (get_playlist_tracks fuel sp playlist_id w) \<noteq> None)"
proof (intro conjI impI)
  assume "get_playlist_tracks fuel sp playlist_id w = (Some r, w')"
  then show "\<exists>tracks. r = Inr tracks \<and> length tracks \<le> 50"
    by (rule get_playlist_tracks_bound)
next
  assume "50 \<le> length gathered"
  then show "more_pages fuel sp results gathered w =
          (if fuel = 0 then None
           else if p_next results = None then Some (Inl (KeyError ''next''))
           else Some (Inr gathered), w)"
    by (rule more_pages_full)
next
  assume "pages_grow sp \<and> 50 < fuel"
  then show "fst (get_playlist_tracks fuel sp playlist_id w) \<noteq> None"
    using get_playlist_tracks_returns by blast
qed

theorem playlist_tracks_cap_witness:
  "get_playlist_tracks 3 long_playlist_api ''pl'' []
    = (Some (Inr (map str_of_nat [0..<50])),
       [Sleep 1, Call (PlaylistTracksReq ''pl''), Sleep 1, Sleep 1,
        Call (NextReq (long_playlist_page 0))])
   \<and> length (map str_of_nat [0..<50]) \<le> 50
   \<and> 50 \<le> length (thirty_items 0 @ thirty_items 30)
   \<and> more_pages 1 long_playlist_api (long_playlist_page 30) (thirty_items 0 @ thirty_items 30) []
       = (Some (Inr (thirty_items 0 @ thirty_items 30)), [])
   \<and> pages_grow long_playlist_api \<and> (50::nat) < 51
   \<and> fst (get_playlist_tracks 51 long_playlist_api ''pl'' []) \<noteq> None"
proof -
  have len: "50 \<le> length (thirty_items 0 @ thirty_items 30)"
    by (simp add: thirty_items_def)
  note t = playlist_tracks_cap[of 3 long_playlist_api "''pl''" "[]" "Inr (map str_of_nat [0..<50])"
     "[Sleep 1, Call (PlaylistTracksReq ''pl''), Sleep 1, Sleep 1, Call (NextReq (long_playlist_page 0))]"]
  from t long_run have b: "length (map str_of_nat [0..<50]) \<le> 50" by auto
  from playlist_tracks_cap[of 51 long_playlist_api "''pl''" "[]"] long_playlist_grows
  have r: "fst (get_playlist_tracks 51 long_playlist_api ''pl'' []) \<noteq> None" by simp
  from long_run b len sixty_gathered long_playlist_grows r show ?thesis by simp
qed

end
